theory Spec2Isabelle
  imports Complex_Main "HOL-Library.Sublist"
begin

section \<open>Binary64 arithmetic\<close>

text \<open>
  A finite JavaScript number is modelled by its exact rational value. Every arithmetic
  operation of the code computes the exact result and rounds it to the nearest binary64
  number, ties to the even significand; \<open>round64\<close> is that rounding. A binary64 number is
  \<open>n * 2^e\<close> with \<open>n < 2^53\<close> and \<open>e \<ge> -1074\<close>. Two things are left out: overflow to
  the infinities (the exponent is not bounded from above) and the sign of zero, which
  nothing in this program can observe.
\<close>

text \<open>The number of binary digits of a positive integer.\<close>

function bit_length :: "int \<Rightarrow> int" where
  "bit_length k = (if k \<le> 0 then 0 else 1 + bit_length (k div 2))"
  by pat_completeness auto
termination
  by (relation "measure nat") auto

declare bit_length.simps [simp del]

definition pow2 :: "int \<Rightarrow> rat" where
  "pow2 e = (if 0 \<le> e then of_int (2 ^ nat e) else 1 / of_int (2 ^ nat (- e)))"

text \<open>
  The rounding works on the fraction \<open>p / q\<close> of the magnitude. From the binary lengths
  of \<open>p\<close> and \<open>q\<close> it finds \<open>l\<close> with \<open>2^l \<le> p / q < 2^(l+1)\<close>; the exponent of the last
  place is \<open>e = l - 52\<close>, or \<open>-1074\<close> for a subnormal result; the magnitude over \<open>2^e\<close> is
  the fraction \<open>num / den\<close>, which is rounded to the integer \<open>n\<close>, a tie going to the even
  one; the result is \<open>n * 2^e\<close> with the sign of the operand.
\<close>

definition round64 :: "rat \<Rightarrow> rat" where
  "round64 x =
     (if x = 0 then 0
      else
        let (p, q) = quotient_of \<bar>x\<bar>;
            d = bit_length p - bit_length q;
            l = (if (if 0 \<le> d then 2 ^ nat d * q \<le> p else q \<le> p * 2 ^ nat (- d))
                 then d else d - 1);
            e = max (l - 52) (- 1074);
            num = (if e \<le> 0 then p * 2 ^ nat (- e) else p);
            den = (if e \<le> 0 then q else q * 2 ^ nat e);
            f = num div den;
            r = num mod den;
            n = (if 2 * r < den then f
                 else if den < 2 * r then f + 1
                 else if even f then f else f + 1);
            y = of_int n * pow2 e
        in if x < 0 then - y else y)"

section \<open>JavaScript values and the built-ins the control panel uses\<close>

text \<open>
  The values a field of the snapshot object may hold: a number (possibly \<open>NaN\<close>), or what
  a JSON document or a missing property can put in its place: \<open>undefined\<close>, \<open>null\<close>, a
  boolean or a string. Objects, symbols and big integers are outside the model.
\<close>

datatype number = NaN | Fin rat

datatype jsval = Undefined | Null | Bool bool | Str string | Number number

abbreviation Num :: "rat \<Rightarrow> jsval" where
  "Num x \<equiv> Number (Fin x)"

text \<open>A decimal literal of the source that binary64 cannot hold exactly stands for the
  nearest binary64 number.\<close>

definition lit :: "rat \<Rightarrow> jsval" where
  "lit q = Num (round64 q)"

datatype error = TypeError

text \<open>
  Two conversions of the runtime are parameters of the model: Number::toString on a finite
  number (the shortest decimal that reads back as the same binary64 number) and
  StringToNumber.
\<close>

record runtime =
  numberToString :: "rat \<Rightarrow> string"
  stringToNumber :: "string \<Rightarrow> number"

fun ToNumber :: "runtime \<Rightarrow> jsval \<Rightarrow> number" where
  "ToNumber rt Undefined = NaN"
| "ToNumber rt Null = Fin 0"
| "ToNumber rt (Bool b) = Fin (if b then 1 else 0)"
| "ToNumber rt (Str s) = stringToNumber rt s"
| "ToNumber rt (Number n) = n"

fun Number_toString :: "runtime \<Rightarrow> number \<Rightarrow> string" where
  "Number_toString rt NaN = ''NaN''"
| "Number_toString rt (Fin x) = numberToString rt x"

fun ToString :: "runtime \<Rightarrow> jsval \<Rightarrow> string" where
  "ToString rt Undefined = ''undefined''"
| "ToString rt Null = ''null''"
| "ToString rt (Bool b) = (if b then ''true'' else ''false'')"
| "ToString rt (Str s) = s"
| "ToString rt (Number n) = Number_toString rt n"

fun isStr :: "jsval \<Rightarrow> bool" where
  "isStr (Str s) = True"
| "isStr _ = False"

text \<open>Numbers: a comparison with \<open>NaN\<close> is false, an operation on \<open>NaN\<close> gives \<open>NaN\<close>.\<close>

fun number_lt :: "number \<Rightarrow> number \<Rightarrow> bool" where
  "number_lt (Fin a) (Fin b) = (a < b)"
| "number_lt _ _ = False"

fun number_times :: "number \<Rightarrow> number \<Rightarrow> number" where
  "number_times (Fin a) (Fin b) = Fin (round64 (a * b))"
| "number_times _ _ = NaN"

fun number_plus :: "number \<Rightarrow> number \<Rightarrow> number" where
  "number_plus (Fin a) (Fin b) = Fin (round64 (a + b))"
| "number_plus _ _ = NaN"

fun number_minus :: "number \<Rightarrow> number \<Rightarrow> number" where
  "number_minus (Fin a) (Fin b) = Fin (round64 (a - b))"
| "number_minus _ _ = NaN"

fun number_min :: "number \<Rightarrow> number \<Rightarrow> number" where
  "number_min (Fin a) (Fin b) = Fin (min a b)"
| "number_min _ _ = NaN"

fun number_max :: "number \<Rightarrow> number \<Rightarrow> number" where
  "number_max (Fin a) (Fin b) = Fin (max a b)"
| "number_max _ _ = NaN"

text \<open>Strings are compared by their code units.\<close>

fun string_lt :: "string \<Rightarrow> string \<Rightarrow> bool" where
  "string_lt [] [] = False"
| "string_lt [] (d # t) = True"
| "string_lt (c # s) [] = False"
| "string_lt (c # s) (d # t) =
     (if c = d then string_lt s t else (of_char c :: nat) < of_char d)"

text \<open>\<open>a < b\<close> and \<open>a > b\<close>: two strings are compared as strings, anything else after
  ToNumber.\<close>

definition lt :: "runtime \<Rightarrow> jsval \<Rightarrow> jsval \<Rightarrow> bool" where
  "lt rt a b =
     (if isStr a \<and> isStr b then string_lt (ToString rt a) (ToString rt b)
      else number_lt (ToNumber rt a) (ToNumber rt b))"

definition gt :: "runtime \<Rightarrow> jsval \<Rightarrow> jsval \<Rightarrow> bool" where
  "gt rt a b = lt rt b a"

text \<open>\<open>a * b\<close> and \<open>a - b\<close> convert both operands to numbers; \<open>a + b\<close> concatenates as
  soon as one operand is a string.\<close>

definition times :: "runtime \<Rightarrow> jsval \<Rightarrow> jsval \<Rightarrow> jsval" where
  "times rt a b = Number (number_times (ToNumber rt a) (ToNumber rt b))"

definition minus :: "runtime \<Rightarrow> jsval \<Rightarrow> jsval \<Rightarrow> jsval" where
  "minus rt a b = Number (number_minus (ToNumber rt a) (ToNumber rt b))"

definition plus :: "runtime \<Rightarrow> jsval \<Rightarrow> jsval \<Rightarrow> jsval" where
  "plus rt a b =
     (if isStr a \<or> isStr b then Str (ToString rt a @ ToString rt b)
      else Number (number_plus (ToNumber rt a) (ToNumber rt b)))"

text \<open>\<open>Math.min\<close> and \<open>Math.max\<close> of two arguments.\<close>

definition Math_min :: "runtime \<Rightarrow> jsval \<Rightarrow> jsval \<Rightarrow> jsval" where
  "Math_min rt a b = Number (number_min (ToNumber rt a) (ToNumber rt b))"

definition Math_max :: "runtime \<Rightarrow> jsval \<Rightarrow> jsval \<Rightarrow> jsval" where
  "Math_max rt a b = Number (number_max (ToNumber rt a) (ToNumber rt b))"

subsection \<open>Number.prototype.toFixed\<close>

text \<open>The decimal digits of a non-negative integer, without leading zeroes (\<open>0\<close> is
  \<open>''0''\<close>).\<close>

function digits :: "int \<Rightarrow> string" where
  "digits k = (if k < 10 then [''0123456789'' ! nat k]
               else digits (k div 10) @ [''0123456789'' ! nat (k mod 10)])"
  by pat_completeness auto
termination
  by (relation "measure nat") auto

declare digits.simps [simp del]

text \<open>
  \<open>x.toFixed(f)\<close> for a finite \<open>x\<close>, after ECMAScript's algorithm: the sign is split off;
  a magnitude of at least \<open>10^21\<close> is printed by Number::toString; otherwise \<open>n\<close> is the
  integer nearest to \<open>x * 10^f\<close> (the larger one on a tie), its digits are padded with
  zeroes to \<open>f + 1\<close> characters, and the point is put before the last \<open>f\<close> of them.
\<close>

definition toFixed_num :: "runtime \<Rightarrow> nat \<Rightarrow> rat \<Rightarrow> string" where
  "toFixed_num rt f x =
     (let s = (if x < 0 then ''-'' else '''');
          x = \<bar>x\<bar>
      in if 10 ^ 21 \<le> x then s @ numberToString rt x
         else
           let n = \<lfloor>x * 10 ^ f + 1 / 2\<rfloor>;
               m = digits n
           in if f \<noteq> 0 then
                let m = (if length m \<le> f then replicate (f + 1 - length m) CHR ''0'' @ m else m);
                    k = length m
                in s @ take (k - f) m @ ''.'' @ drop (k - f) m
              else s @ m)"

text \<open>
  The method call \<open>v.toFixed(f)\<close>. Only a number has the method: reading it from
  \<open>undefined\<close> or \<open>null\<close> throws a TypeError, and so does calling what a boolean or a
  string has in its place (\<open>undefined\<close>). \<open>NaN\<close> prints as \<open>''NaN''\<close>.
\<close>

fun toFixed :: "runtime \<Rightarrow> nat \<Rightarrow> jsval \<Rightarrow> error + string" where
  "toFixed rt f (Number NaN) = Inr ''NaN''"
| "toFixed rt f (Number (Fin x)) = Inr (toFixed_num rt f x)"
| "toFixed rt f _ = Inl TypeError"

text \<open>Sequencing of computations that may throw: the first exception ends the evaluation.\<close>

definition andThen :: "error + 'a \<Rightarrow> ('a \<Rightarrow> error + 'b) \<Rightarrow> error + 'b" where
  "andThen r k = (case r of Inl e \<Rightarrow> Inl e | Inr v \<Rightarrow> k v)"

section \<open>The orchestration core (ODAS control panel)\<close>

text \<open>The simulated real-time data of the digital paths (the \<open>pathData\<close> state).\<close>

record pathData =
  assetVolatility :: jsval
  marketLiquidity :: jsval
  systemLatency :: jsval
  publicSentiment :: jsval
  anomalyScore :: jsval
  lastScan :: string

text \<open>An intervention as \<open>orchestrateControl\<close> pushes it.\<close>

record intervention =
  path :: string
  description :: string
  severity :: string

text \<open>
  \<open>INTERVENTION_THRESHOLDS\<close>. The thresholds are only compared with, and the literals
  \<open>0.15\<close>, \<open>0.40\<close> and \<open>0.85\<close> stand for their decimal values: the binary64 number nearest
  to each has no binary64 number between itself and the decimal, and lies on the side of
  it where the strict comparison of the code gives the same answer for every binary64
  operand.
\<close>

definition MAX_VOLATILITY :: rat where "MAX_VOLATILITY = 15 / 100"
definition MIN_LIQUIDITY :: rat where "MIN_LIQUIDITY = 100000"
definition MAX_LATENCY :: rat where "MAX_LATENCY = 150"
definition MIN_SENTIMENT :: rat where "MIN_SENTIMENT = 40 / 100"
definition MAX_ANOMALY_SCORE :: rat where "MAX_ANOMALY_SCORE = 85 / 100"

text \<open>
  The five \<open>if\<close> statements of \<open>orchestrateControl\<close>, each taking the array built so far
  and returning it with at most one more element. The template literal is evaluated only
  when the test holds.
\<close>

definition checkVolatility ::
  "runtime \<Rightarrow> pathData \<Rightarrow> intervention list \<Rightarrow> error + intervention list" where
  "checkVolatility rt pathData interventions =
     (if gt rt (assetVolatility pathData) (Num MAX_VOLATILITY) then
        andThen (toFixed rt 1 (times rt (assetVolatility pathData) (Num 100))) (\<lambda>v.
          Inr (interventions @
            [\<lparr>path = ''Finansial'',
              description = ''Volatilitas aset Kritis ('' @ v @
                ''%). Memerlukan Chronos Executor (CE) Lock.'',
              severity = ''Kritis''\<rparr>]))
      else Inr interventions)"

definition checkLiquidity ::
  "runtime \<Rightarrow> pathData \<Rightarrow> intervention list \<Rightarrow> error + intervention list" where
  "checkLiquidity rt pathData interventions =
     (if lt rt (marketLiquidity pathData) (Num MIN_LIQUIDITY) then
        andThen (toFixed rt 0 (marketLiquidity pathData)) (\<lambda>v.
          Inr (interventions @
            [\<lparr>path = ''Finansial'',
              description = ''Likuiditas rendah: $'' @ v @
                ''. Memerlukan injeksi dana/stabilisasi.'',
              severity = ''Peringatan''\<rparr>]))
      else Inr interventions)"

definition checkLatency ::
  "runtime \<Rightarrow> pathData \<Rightarrow> intervention list \<Rightarrow> error + intervention list" where
  "checkLatency rt pathData interventions =
     (if gt rt (systemLatency pathData) (Num MAX_LATENCY) then
        andThen (toFixed rt 0 (systemLatency pathData)) (\<lambda>v.
          Inr (interventions @
            [\<lparr>path = ''Infrastruktur'',
              description = ''Latency sistem Kritis ('' @ v @
                ''ms). Memerlukan realokasi sumber daya I/O.'',
              severity = ''Kritis''\<rparr>]))
      else Inr interventions)"

definition checkSentiment ::
  "runtime \<Rightarrow> pathData \<Rightarrow> intervention list \<Rightarrow> error + intervention list" where
  "checkSentiment rt pathData interventions =
     (if lt rt (publicSentiment pathData) (Num MIN_SENTIMENT) then
        andThen (toFixed rt 0 (times rt (publicSentiment pathData) (Num 100))) (\<lambda>v.
          Inr (interventions @
            [\<lparr>path = ''Persona'',
              description = ''Sentimen Publik Rendah ('' @ v @
                ''%). Memerlukan Narasi Frame Shift Otomatis.'',
              severity = ''Peringatan''\<rparr>]))
      else Inr interventions)"

definition checkAnomaly ::
  "runtime \<Rightarrow> pathData \<Rightarrow> intervention list \<Rightarrow> error + intervention list" where
  "checkAnomaly rt pathData interventions =
     (if gt rt (anomalyScore pathData) (Num MAX_ANOMALY_SCORE) then
        andThen (toFixed rt 0 (times rt (anomalyScore pathData) (Num 100))) (\<lambda>v.
          Inr (interventions @
            [\<lparr>path = ''Sensor'',
              description = ''Anomali Data Masif Terdeteksi ('' @ v @
                ''%). Memerlukan Recursive Resonance Alert (RRA).'',
              severity = ''Kritis''\<rparr>]))
      else Inr interventions)"

text \<open>\<open>orchestrateControl\<close>: the array starts empty, the five checks run in the order of
  the source, and the array is returned.\<close>

definition orchestrateControl :: "runtime \<Rightarrow> pathData \<Rightarrow> error + intervention list" where
  "orchestrateControl rt pathData =
     andThen (checkVolatility rt pathData []) (\<lambda>interventions.
     andThen (checkLiquidity rt pathData interventions) (\<lambda>interventions.
     andThen (checkLatency rt pathData interventions) (\<lambda>interventions.
     andThen (checkSentiment rt pathData interventions) (\<lambda>interventions.
     checkAnomaly rt pathData interventions))))"

section \<open>The scan loop (ODAS control panel)\<close>

text \<open>
  What one call of \<open>runOdasScan\<close> takes from outside: the five results of \<open>Math.random()\<close>
  in the order of the calls (each in \<open>[0, 1)\<close>), the string of
  \<open>new Date().toLocaleTimeString()\<close>, and for the \<open>i\<close>-th \<open>addDoc\<close> of the call whether
  its promise resolves.
\<close>

record scan =
  random1 :: rat
  random2 :: rat
  random3 :: rat
  random4 :: rat
  random5 :: rat
  localeTime :: string
  addDocResolves :: "nat \<Rightarrow> bool"

text \<open>The object literal \<open>newPathData\<close>: each field is the old one plus a random
  fluctuation, cut by the one \<open>Math.min\<close> or \<open>Math.max\<close> of its line.\<close>

definition newPathData :: "runtime \<Rightarrow> scan \<Rightarrow> pathData \<Rightarrow> pathData" where
  "newPathData rt e pathData =
     \<lparr>assetVolatility =
        Math_min rt (Num (5 / 10))
          (plus rt (assetVolatility pathData)
             (minus rt (times rt (Num (random1 e)) (lit (1 / 10))) (lit (5 / 100)))),
      marketLiquidity =
        Math_max rt (Num 0)
          (plus rt (marketLiquidity pathData)
             (minus rt (times rt (Num (random2 e)) (Num 50000)) (Num 30000))),
      systemLatency =
        Math_min rt (Num 300)
          (plus rt (systemLatency pathData)
             (minus rt (times rt (Num (random3 e)) (Num 40)) (Num 20))),
      publicSentiment =
        Math_min rt (Num 1)
          (plus rt (publicSentiment pathData)
             (minus rt (times rt (Num (random4 e)) (lit (2 / 10))) (lit (1 / 10)))),
      anomalyScore =
        Math_min rt (Num 1)
          (plus rt (anomalyScore pathData)
             (minus rt (times rt (Num (random5 e)) (lit (3 / 10))) (lit (1 / 10)))),
      lastScan = localeTime e\<rparr>"

text \<open>
  The state \<open>runOdasScan\<close> reads and writes: the React states \<open>pathData\<close>, \<open>odasStatus\<close>
  and \<open>isSimulating\<close>, and the Firestore collection behind \<open>interventionCollectionRef\<close>
  (\<open>None\<close> for a \<open>null\<close> reference, otherwise the documents added so far; the time stamp
  of a document is assigned by the server and not modelled).
\<close>

record app =
  pathData :: pathData
  odasStatus :: string
  isSimulating :: bool
  interventionCollectionRef :: "intervention list option"

text \<open>The \<open>for\<close> loop inside \<open>try\<close>: the documents are added one after the other, and the
  first rejected \<open>addDoc\<close> leaves the loop for the \<open>catch\<close> block, which only logs.\<close>

fun logInterventions ::
  "(nat \<Rightarrow> bool) \<Rightarrow> nat \<Rightarrow> intervention list \<Rightarrow> intervention list \<Rightarrow> intervention list" where
  "logInterventions resolves i [] collection = collection"
| "logInterventions resolves i (intervention # rest) collection =
     (if resolves i then logInterventions resolves (Suc i) rest (collection @ [intervention])
      else collection)"

text \<open>
  \<open>runOdasScan\<close>. The guard returns at once; otherwise the new data is stored, the
  orchestration core runs on it, and the status is set from the length of its result. An
  exception of the core would reject the promise after \<open>setPathData\<close> and before any
  \<open>setOdasStatus\<close>.
\<close>

definition runOdasScan :: "runtime \<Rightarrow> scan \<Rightarrow> app \<Rightarrow> app" where
  "runOdasScan rt e a =
     (if \<not> isSimulating a \<or> interventionCollectionRef a = None then a
      else
        let newData = newPathData rt e (pathData a);
            a = a\<lparr>pathData := newData\<rparr>
        in case orchestrateControl rt newData of
             Inl err \<Rightarrow> a
           | Inr newInterventions \<Rightarrow>
               if length newInterventions > 0 then
                 a\<lparr>odasStatus :=
                      ''Intervensi '' @ digits (int (length newInterventions)) @ '' Kritis'',
                    interventionCollectionRef :=
                      map_option (logInterventions (addDocResolves e) 0 newInterventions)
                        (interventionCollectionRef a)\<rparr>
               else a\<lparr>odasStatus := ''ODAS Operasional Normal''\<rparr>)"

text \<open>The interval timer: one call of \<open>runOdasScan\<close> per tick, each on the state the
  previous one left.\<close>

fun runScans :: "runtime \<Rightarrow> scan list \<Rightarrow> app \<Rightarrow> app" where
  "runScans rt [] a = a"
| "runScans rt (e # es) a = runScans rt es (runOdasScan rt e a)"

section \<open>The health label (global control panel)\<close>

text \<open>A fetched intervention: the stored fields, the document id and the time stamp as a
  string.\<close>

record fetchedIntervention = intervention +
  docId :: string
  timestamp :: string

record strategicMetrics =
  totalAssets :: nat
  personaRating :: rat
  totalInterventions :: nat
  systemHealth :: string

record gcp =
  interventions :: "fetchedIntervention list"
  strategicMetrics :: strategicMetrics

text \<open>The \<open>onSnapshot\<close> callback of the global control panel, from the count of critical
  interventions on: it stores the fetched list and updates two of the metrics.\<close>

definition onSnapshot :: "fetchedIntervention list \<Rightarrow> gcp \<Rightarrow> gcp" where
  "onSnapshot fetchedInterventions s =
     (let criticalCount = length (filter (\<lambda>i. severity i = ''Kritis'') fetchedInterventions)
      in s\<lparr>interventions := fetchedInterventions,
            strategicMetrics := (strategicMetrics s)
              \<lparr>totalInterventions := length fetchedInterventions,
                systemHealth :=
                  (if criticalCount > 5 then ''Kritis (High Alert)''
                   else if criticalCount > 0 then ''Peringatan''
                   else ''Optimal'')\<rparr>\<rparr>)"

section \<open>The specification's vocabulary\<close>

text \<open>
  The five monitored metrics, in the evaluation order the specification fixes, and its
  threshold table: one upper or lower bound per metric. These definitions follow the
  specification's words; the theorems compare them with the code above.
\<close>

datatype metric = Volatility | Liquidity | Latency | Sentiment | Anomaly

datatype bound_kind = Upper | Lower

definition spec_evaluation_order :: "metric list" where
  "spec_evaluation_order = [Volatility, Liquidity, Latency, Sentiment, Anomaly]"

fun spec_threshold :: "metric \<Rightarrow> bound_kind \<times> rat" where
  "spec_threshold Volatility = (Upper, 15 / 100)"
| "spec_threshold Liquidity = (Lower, 100000)"
| "spec_threshold Latency = (Upper, 150)"
| "spec_threshold Sentiment = (Lower, 40 / 100)"
| "spec_threshold Anomaly = (Upper, 85 / 100)"

text \<open>A field exceeds a bound when it holds a number strictly above it, and is below a
  bound when it holds a number strictly below it.\<close>

fun exceeds :: "jsval \<Rightarrow> rat \<Rightarrow> bool" where
  "exceeds (Num x) b = (b < x)"
| "exceeds _ b = False"

fun below :: "jsval \<Rightarrow> rat \<Rightarrow> bool" where
  "below (Num x) b = (x < b)"
| "below _ b = False"

text \<open>An upper bound is violated by a value strictly above it, a lower bound by a value
  strictly below it.\<close>

fun spec_fires :: "bound_kind \<times> rat \<Rightarrow> jsval \<Rightarrow> bool" where
  "spec_fires (Upper, b) v = exceeds v b"
| "spec_fires (Lower, b) v = below v b"

fun field :: "metric \<Rightarrow> pathData \<Rightarrow> jsval" where
  "field Volatility pd = assetVolatility pd"
| "field Liquidity pd = marketLiquidity pd"
| "field Latency pd = systemLatency pd"
| "field Sentiment pd = publicSentiment pd"
| "field Anomaly pd = anomalyScore pd"

definition spec_violates :: "pathData \<Rightarrow> metric \<Rightarrow> bool" where
  "spec_violates pd m = spec_fires (spec_threshold m) (field m pd)"

text \<open>The metrics a snapshot violates, in evaluation order, and their number.\<close>

definition violated :: "pathData \<Rightarrow> metric list" where
  "violated pd = filter (spec_violates pd) spec_evaluation_order"

definition spec_violation_count :: "pathData \<Rightarrow> nat" where
  "spec_violation_count pd =
     (if exceeds (assetVolatility pd) (15 / 100) then 1 else 0) +
     (if below (marketLiquidity pd) 100000 then 1 else 0) +
     (if exceeds (systemLatency pd) 150 then 1 else 0) +
     (if below (publicSentiment pd) (40 / 100) then 1 else 0) +
     (if exceeds (anomalyScore pd) (85 / 100) then 1 else 0)"

text \<open>
  The snapshots of the specification hold five numbers. The theorems about the evaluator
  also admit a missing field (\<open>undefined\<close>); a field that holds \<open>null\<close>, a boolean or a
  string is outside them.
\<close>

fun numberOrMissing :: "jsval \<Rightarrow> bool" where
  "numberOrMissing Undefined = True"
| "numberOrMissing (Number n) = True"
| "numberOrMissing _ = False"

definition numbersOrMissing :: "pathData \<Rightarrow> bool" where
  "numbersOrMissing pd =
     (numberOrMissing (assetVolatility pd) \<and> numberOrMissing (marketLiquidity pd) \<and>
      numberOrMissing (systemLatency pd) \<and> numberOrMissing (publicSentiment pd) \<and>
      numberOrMissing (anomalyScore pd))"

text \<open>Path and severity per metric, as the specification assigns them (\<open>Finansial\<close>,
  \<open>Infrastruktur\<close>, \<open>Kritis\<close> and \<open>Peringatan\<close> are the code's labels for Financial,
  Infrastructure, Critical and Warning).\<close>

fun spec_path :: "metric \<Rightarrow> string" where
  "spec_path Volatility = ''Finansial''"
| "spec_path Liquidity = ''Finansial''"
| "spec_path Latency = ''Infrastruktur''"
| "spec_path Sentiment = ''Persona''"
| "spec_path Anomaly = ''Sensor''"

fun spec_severity :: "metric \<Rightarrow> string" where
  "spec_severity Volatility = ''Kritis''"
| "spec_severity Latency = ''Kritis''"
| "spec_severity Anomaly = ''Kritis''"
| "spec_severity Liquidity = ''Peringatan''"
| "spec_severity Sentiment = ''Peringatan''"

text \<open>
  The record of a violated metric, described without the control flow of the code: the
  number that is printed (for a percentage the binary64 product of the fraction and 100),
  the count of fraction digits it is printed with, and the text around it.
\<close>

fun num_of :: "jsval \<Rightarrow> rat" where
  "num_of (Num x) = x"
| "num_of _ = 0"

fun shown :: "metric \<Rightarrow> pathData \<Rightarrow> rat" where
  "shown Volatility pd = round64 (num_of (assetVolatility pd) * 100)"
| "shown Liquidity pd = num_of (marketLiquidity pd)"
| "shown Latency pd = num_of (systemLatency pd)"
| "shown Sentiment pd = round64 (num_of (publicSentiment pd) * 100)"
| "shown Anomaly pd = round64 (num_of (anomalyScore pd) * 100)"

fun fractionDigits :: "metric \<Rightarrow> nat" where
  "fractionDigits Volatility = 1"
| "fractionDigits Liquidity = 0"
| "fractionDigits Latency = 0"
| "fractionDigits Sentiment = 0"
| "fractionDigits Anomaly = 0"

fun template :: "metric \<Rightarrow> string \<Rightarrow> string" where
  "template Volatility v =
     ''Volatilitas aset Kritis ('' @ v @ ''%). Memerlukan Chronos Executor (CE) Lock.''"
| "template Liquidity v =
     ''Likuiditas rendah: $'' @ v @ ''. Memerlukan injeksi dana/stabilisasi.''"
| "template Latency v =
     ''Latency sistem Kritis ('' @ v @ ''ms). Memerlukan realokasi sumber daya I/O.''"
| "template Sentiment v =
     ''Sentimen Publik Rendah ('' @ v @ ''%). Memerlukan Narasi Frame Shift Otomatis.''"
| "template Anomaly v =
     ''Anomali Data Masif Terdeteksi ('' @ v @
       ''%). Memerlukan Recursive Resonance Alert (RRA).''"

definition recordFor :: "runtime \<Rightarrow> pathData \<Rightarrow> metric \<Rightarrow> intervention" where
  "recordFor rt pd m =
     \<lparr>path = spec_path m,
      description = template m (toFixed_num rt (fractionDigits m) (shown m pd)),
      severity = spec_severity m\<rparr>"


text \<open>Bounds on a field that holds a number.\<close>

fun notAbove :: "jsval \<Rightarrow> rat \<Rightarrow> bool" where
  "notAbove (Num x) b = (x \<le> b)"
| "notAbove _ b = False"

fun notBelow :: "jsval \<Rightarrow> rat \<Rightarrow> bool" where
  "notBelow (Num x) b = (b \<le> x)"
| "notBelow _ b = False"

fun isNum :: "jsval \<Rightarrow> bool" where
  "isNum (Num x) = True"
| "isNum _ = False"

text \<open>A snapshot whose five fields all hold finite numbers.\<close>

definition numeric :: "pathData \<Rightarrow> bool" where
  "numeric pd =
     (isNum (assetVolatility pd) \<and> isNum (marketLiquidity pd) \<and> isNum (systemLatency pd) \<and>
      isNum (publicSentiment pd) \<and> isNum (anomalyScore pd))"

text \<open>The ranges the specification documents for the fields of a snapshot.\<close>

definition spec_in_range :: "pathData \<Rightarrow> bool" where
  "spec_in_range pd =
     (notBelow (assetVolatility pd) 0 \<and> notAbove (assetVolatility pd) (5 / 10) \<and>
      notBelow (marketLiquidity pd) 0 \<and>
      notBelow (systemLatency pd) 0 \<and> notAbove (systemLatency pd) 300 \<and>
      notBelow (publicSentiment pd) 0 \<and> notAbove (publicSentiment pd) 1 \<and>
      notBelow (anomalyScore pd) 0 \<and> notAbove (anomalyScore pd) 1)"

text \<open>The bounds each scan enforces: the one \<open>Math.min\<close> or \<open>Math.max\<close> of each field.\<close>

definition clamped :: "pathData \<Rightarrow> bool" where
  "clamped pd =
     (notAbove (assetVolatility pd) (5 / 10) \<and>
      notBelow (marketLiquidity pd) 0 \<and>
      notAbove (systemLatency pd) 300 \<and>
      notAbove (publicSentiment pd) 1 \<and>
      notAbove (anomalyScore pd) 1)"

section \<open>Concrete inputs\<close>

text \<open>The initial \<open>pathData\<close> state of the control panel (without the time of the first
  render), and the panel once the database is ready and the simulation is on.\<close>

definition initialPathData :: pathData where
  "initialPathData =
     \<lparr>assetVolatility = lit (5 / 100), marketLiquidity = Num 500000, systemLatency = Num 50,
      publicSentiment = lit (80 / 100), anomalyScore = lit (30 / 100), lastScan = ''''\<rparr>"

definition onlineApp :: app where
  "onlineApp =
     \<lparr>pathData = initialPathData, odasStatus = ''ODAS Online'', isSimulating = True,
      interventionCollectionRef = Some []\<rparr>"

text \<open>A scan in which every \<open>Math.random()\<close> returns \<open>0.25\<close> and every write succeeds.\<close>

definition quarterScan :: scan where
  "quarterScan =
     \<lparr>random1 = 1 / 4, random2 = 1 / 4, random3 = 1 / 4, random4 = 1 / 4, random5 = 1 / 4,
      localeTime = ''10:00:00'', addDocResolves = (\<lambda>i. True)\<rparr>"

text \<open>
  The runtime of the examples. They convert no string to a number, and the only number
  they print with Number::toString is \<open>10^21\<close>, which prints as \<open>1e+21\<close>; the two
  conversions are fixed there and arbitrary elsewhere.
\<close>

definition exampleRuntime :: runtime where
  "exampleRuntime =
     \<lparr>numberToString = (\<lambda>x. if x = 10 ^ 21 then ''1e+21'' else ''''),
      stringToNumber = (\<lambda>s. NaN)\<rparr>"

text \<open>The initial state of the global control panel, and two fetched interventions.\<close>

definition offlineGcp :: gcp where
  "offlineGcp =
     \<lparr>interventions = [],
      strategicMetrics =
        \<lparr>totalAssets = 0, personaRating = 0, totalInterventions = 0,
         systemHealth = ''Offline''\<rparr>\<rparr>"

definition criticalDoc :: fetchedIntervention where
  "criticalDoc =
     \<lparr>path = ''Infrastruktur'',
      description = ''Latency sistem Kritis (200ms). Memerlukan realokasi sumber daya I/O.'',
      severity = ''Kritis'', docId = ''a1'', timestamp = ''10:00:05''\<rparr>"

definition warningDoc :: fetchedIntervention where
  "warningDoc =
     \<lparr>path = ''Persona'',
      description = ''Sentimen Publik Rendah (25%). Memerlukan Narasi Frame Shift Otomatis.'',
      severity = ''Peringatan'', docId = ''b2'', timestamp = ''10:00:10''\<rparr>"

section \<open>The orchestration core computes the violated metrics' records\<close>

lemma gt_exceeds: "numberOrMissing v \<Longrightarrow> gt rt v (Num b) = exceeds v b"
proof (cases v)
  case (Number n)
  then show ?thesis
    by (cases n) (simp_all add: gt_def lt_def)
qed (simp_all add: gt_def lt_def)

lemma lt_below: "numberOrMissing v \<Longrightarrow> lt rt v (Num b) = below v b"
proof (cases v)
  case (Number n)
  then show ?thesis
    by (cases n) (simp_all add: lt_def)
qed (simp_all add: lt_def)

lemma exceedsE:
  assumes "exceeds v b"
  shows "\<exists>x. v = Num x"
proof (cases v)
  case (Number n)
  with assms show ?thesis
    by (cases n) simp_all
qed (use assms in simp_all)

lemma belowE:
  assumes "below v b"
  shows "\<exists>x. v = Num x"
proof (cases v)
  case (Number n)
  with assms show ?thesis
    by (cases n) simp_all
qed (use assms in simp_all)

lemma checkVolatility_eq:
  assumes "numberOrMissing (assetVolatility pd)"
  shows "checkVolatility rt pd xs =
     Inr (xs @ map (recordFor rt pd) (filter (spec_violates pd) [Volatility]))"
proof (cases "exceeds (assetVolatility pd) (15 / 100)")
  case True
  then obtain x where "assetVolatility pd = Num x"
    by (auto dest: exceedsE)
  with True assms show ?thesis
    by (simp add: checkVolatility_def gt_exceeds MAX_VOLATILITY_def spec_violates_def
        recordFor_def andThen_def times_def)
next
  case False
  with assms show ?thesis
    by (simp add: checkVolatility_def gt_exceeds MAX_VOLATILITY_def spec_violates_def)
qed

lemma checkLiquidity_eq:
  assumes "numberOrMissing (marketLiquidity pd)"
  shows "checkLiquidity rt pd xs =
     Inr (xs @ map (recordFor rt pd) (filter (spec_violates pd) [Liquidity]))"
proof (cases "below (marketLiquidity pd) 100000")
  case True
  then obtain x where "marketLiquidity pd = Num x"
    by (auto dest: belowE)
  with True assms show ?thesis
    by (simp add: checkLiquidity_def lt_below MIN_LIQUIDITY_def spec_violates_def
        recordFor_def andThen_def)
next
  case False
  with assms show ?thesis
    by (simp add: checkLiquidity_def lt_below MIN_LIQUIDITY_def spec_violates_def)
qed

lemma checkLatency_eq:
  assumes "numberOrMissing (systemLatency pd)"
  shows "checkLatency rt pd xs =
     Inr (xs @ map (recordFor rt pd) (filter (spec_violates pd) [Latency]))"
proof (cases "exceeds (systemLatency pd) 150")
  case True
  then obtain x where "systemLatency pd = Num x"
    by (auto dest: exceedsE)
  with True assms show ?thesis
    by (simp add: checkLatency_def gt_exceeds MAX_LATENCY_def spec_violates_def
        recordFor_def andThen_def)
next
  case False
  with assms show ?thesis
    by (simp add: checkLatency_def gt_exceeds MAX_LATENCY_def spec_violates_def)
qed

lemma checkSentiment_eq:
  assumes "numberOrMissing (publicSentiment pd)"
  shows "checkSentiment rt pd xs =
     Inr (xs @ map (recordFor rt pd) (filter (spec_violates pd) [Sentiment]))"
proof (cases "below (publicSentiment pd) (40 / 100)")
  case True
  then obtain x where "publicSentiment pd = Num x"
    by (auto dest: belowE)
  with True assms show ?thesis
    by (simp add: checkSentiment_def lt_below MIN_SENTIMENT_def spec_violates_def
        recordFor_def andThen_def times_def)
next
  case False
  with assms show ?thesis
    by (simp add: checkSentiment_def lt_below MIN_SENTIMENT_def spec_violates_def)
qed

lemma checkAnomaly_eq:
  assumes "numberOrMissing (anomalyScore pd)"
  shows "checkAnomaly rt pd xs =
     Inr (xs @ map (recordFor rt pd) (filter (spec_violates pd) [Anomaly]))"
proof (cases "exceeds (anomalyScore pd) (85 / 100)")
  case True
  then obtain x where "anomalyScore pd = Num x"
    by (auto dest: exceedsE)
  with True assms show ?thesis
    by (simp add: checkAnomaly_def gt_exceeds MAX_ANOMALY_SCORE_def spec_violates_def
        recordFor_def andThen_def times_def)
next
  case False
  with assms show ?thesis
    by (simp add: checkAnomaly_def gt_exceeds MAX_ANOMALY_SCORE_def spec_violates_def)
qed

lemma violated_split:
  "violated pd =
     filter (spec_violates pd) [Volatility] @ filter (spec_violates pd) [Liquidity] @
     filter (spec_violates pd) [Latency] @ filter (spec_violates pd) [Sentiment] @
     filter (spec_violates pd) [Anomaly]"
  unfolding violated_def spec_evaluation_order_def by simp

lemma orchestrateControl_eq:
  assumes "numbersOrMissing pd"
  shows "orchestrateControl rt pd = Inr (map (recordFor rt pd) (violated pd))"
proof -
  from assms have n: "numberOrMissing (assetVolatility pd)" "numberOrMissing (marketLiquidity pd)"
    "numberOrMissing (systemLatency pd)" "numberOrMissing (publicSentiment pd)"
    "numberOrMissing (anomalyScore pd)"
    by (simp_all add: numbersOrMissing_def)
  show ?thesis
    unfolding orchestrateControl_def checkVolatility_eq [OF n(1)] checkLiquidity_eq [OF n(2)]
      checkLatency_eq [OF n(3)] checkSentiment_eq [OF n(4)] checkAnomaly_eq [OF n(5)]
      violated_split
    by (simp only: andThen_def sum.case map_append append.assoc append_Nil)
qed

lemma length_violated: "length (violated pd) = spec_violation_count pd"
  unfolding violated_def spec_evaluation_order_def spec_violates_def spec_violation_count_def
  by simp

lemma set_violated: "set (violated pd) = {m. spec_violates pd m}"
proof -
  have "m \<in> set spec_evaluation_order" for m
    unfolding spec_evaluation_order_def by (cases m) simp_all
  then show ?thesis
    unfolding violated_def by auto
qed

lemma path_severity_inj:
  "spec_path m' = spec_path m \<Longrightarrow> spec_severity m' = spec_severity m \<Longrightarrow> m' = m"
  by (cases m; cases m') simp_all

lemma violates_isNum: "spec_violates pd m \<Longrightarrow> isNum (field m pd)"
  unfolding spec_violates_def
  by (cases m) (auto dest: exceedsE belowE)

lemma keys_of_records:
  "map (\<lambda>r. (path r, severity r)) (map (recordFor rt pd) ms) =
     map (\<lambda>m. (spec_path m, spec_severity m)) ms"
  by (simp add: recordFor_def)

text \<open>The binary64 numbers of the three inexact threshold literals lie on the side of the
  decimal where the strict test is false for them.\<close>

lemma threshold_literals:
  "round64 (15 / 100) \<le> 15 / 100" "round64 (85 / 100) \<le> 85 / 100"
  "40 / 100 \<le> round64 (40 / 100)" "round64 100000 = 100000" "round64 150 = 150"
  by code_simp+

text \<open>
  Outside the snapshots of numbers and missing fields the core can throw: the three
  percentage checks call \<open>toFixed\<close> on a product, which is always a number, but the
  liquidity and latency checks call it on the field itself, and \<open>null < 100000\<close> holds.
\<close>

lemma checkVolatility_returns: "\<exists>ys. checkVolatility rt pd xs = Inr ys"
  by (cases "number_times (ToNumber rt (assetVolatility pd)) (Fin 100)")
    (simp_all add: checkVolatility_def andThen_def times_def)

lemma null_liquidity_throws:
  assumes "marketLiquidity pd = Null"
  shows "orchestrateControl rt pd = Inl TypeError"
proof -
  obtain ys where "checkVolatility rt pd [] = Inr ys"
    using checkVolatility_returns by blast
  moreover have "checkLiquidity rt pd ys = Inl TypeError"
    using assms by (simp add: checkLiquidity_def lt_def MIN_LIQUIDITY_def andThen_def)
  ultimately show ?thesis
    by (simp add: orchestrateControl_def andThen_def)
qed

section \<open>Claims about the evaluator\<close>

text \<open>
  C1. For every snapshot (five fields that hold numbers, a missing field being admitted
  too) the evaluator returns a sequence whose length is the number of fields that violate
  their bound, so that several violations give several records; for the snapshot with
  volatility 0.20, liquidity 500000, latency 50, sentiment 0.80 and anomaly 0.30 it returns
  exactly one record, of path Financial and severity Critical, whose description contains
  \<open>20.0%\<close>.
\<close>

theorem orchestrateControl_one_record_per_violation:
  "(numbersOrMissing pd \<longrightarrow>
      (\<exists>rs. orchestrateControl rt pd = Inr rs \<and> length rs = spec_violation_count pd)) \<and>
   (\<exists>r. orchestrateControl rt
           \<lparr>assetVolatility = lit (20 / 100), marketLiquidity = Num 500000,
            systemLatency = Num 50, publicSentiment = lit (80 / 100),
            anomalyScore = lit (30 / 100), lastScan = t\<rparr> = Inr [r] \<and>
        path r = ''Finansial'' \<and> severity r = ''Kritis'' \<and>
        sublist ''20.0%'' (description r))"
proof (intro conjI impI)
  assume "numbersOrMissing pd"
  then show "\<exists>rs. orchestrateControl rt pd = Inr rs \<and> length rs = spec_violation_count pd"
    by (simp add: orchestrateControl_eq length_violated)
next
  let ?pd = "\<lparr>assetVolatility = lit (20 / 100), marketLiquidity = Num 500000,
            systemLatency = Num 50, publicSentiment = lit (80 / 100),
            anomalyScore = lit (30 / 100), lastScan = t\<rparr>"
  let ?d = "''Volatilitas aset Kritis (20.0%). Memerlukan Chronos Executor (CE) Lock.''"
  have run: "orchestrateControl rt ?pd =
      Inr [\<lparr>path = ''Finansial'', description = ?d, severity = ''Kritis''\<rparr>]"
    by code_simp
  have "sublist ''20.0%'' ?d"
    by code_simp
  with run show "\<exists>r. orchestrateControl rt ?pd = Inr [r] \<and>
        path r = ''Finansial'' \<and> severity r = ''Kritis'' \<and>
        sublist ''20.0%'' (description r)"
    by simp
qed

theorem orchestrateControl_one_record_per_violation_witness:
  "numbersOrMissing
     \<lparr>assetVolatility = lit (20 / 100), marketLiquidity = Num 5, systemLatency = Num 50,
      publicSentiment = lit (80 / 100), anomalyScore = Undefined, lastScan = ''''\<rparr> \<and>
   (\<exists>rs. orchestrateControl exampleRuntime
       \<lparr>assetVolatility = lit (20 / 100), marketLiquidity = Num 5, systemLatency = Num 50,
        publicSentiment = lit (80 / 100), anomalyScore = Undefined, lastScan = ''''\<rparr> =
       Inr rs \<and> length rs = 2)"
proof -
  let ?pd = "\<lparr>assetVolatility = lit (20 / 100), marketLiquidity = Num 5,
      systemLatency = Num 50, publicSentiment = lit (80 / 100), anomalyScore = Undefined,
      lastScan = ''''\<rparr>"
  have n: "numbersOrMissing ?pd"
    by (simp add: numbersOrMissing_def lit_def)
  have c: "spec_violation_count ?pd = 2"
    by code_simp
  from orchestrateControl_one_record_per_violation [of ?pd exampleRuntime, THEN conjunct1] n
  have "\<exists>rs. orchestrateControl exampleRuntime ?pd = Inr rs \<and> length rs = 2"
    unfolding c by (rule mp)
  with n show ?thesis ..
qed

text \<open>
  C3. A record for a metric is produced exactly when the metric's value is strictly above
  its upper bound or strictly below its lower bound; a value equal to the bound produces no
  record, be it the decimal of the threshold table or the binary64 number of the literal,
  and for instance a latency of exactly 150 gives no Infrastructure record. (A record is
  told from the others by its path and severity.)
\<close>

theorem threshold_tests_are_strict:
  assumes "orchestrateControl rt pd = Inr rs" and "numbersOrMissing pd"
  shows "(\<forall>m. (\<exists>r \<in> set rs. path r = spec_path m \<and> severity r = spec_severity m) =
            spec_violates pd m) \<and>
         (\<forall>m. field m pd = Num (snd (spec_threshold m)) \<longrightarrow>
            \<not> (\<exists>r \<in> set rs. path r = spec_path m \<and> severity r = spec_severity m)) \<and>
         (\<forall>m. field m pd = lit (snd (spec_threshold m)) \<longrightarrow>
            \<not> (\<exists>r \<in> set rs. path r = spec_path m \<and> severity r = spec_severity m)) \<and>
         (systemLatency pd = Num 150 \<longrightarrow> \<not> (\<exists>r \<in> set rs. path r = ''Infrastruktur''))"
proof -
  from assms have rs: "rs = map (recordFor rt pd) (violated pd)"
    by (simp add: orchestrateControl_eq)
  have iff: "(\<exists>r \<in> set rs. path r = spec_path m \<and> severity r = spec_severity m) =
      spec_violates pd m" for m
  proof
    assume "\<exists>r \<in> set rs. path r = spec_path m \<and> severity r = spec_severity m"
    then obtain m' where "m' \<in> set (violated pd)" "spec_path m' = spec_path m"
      "spec_severity m' = spec_severity m"
      unfolding rs by (auto simp: recordFor_def)
    then show "spec_violates pd m"
      using path_severity_inj [of m' m] by (simp add: set_violated)
  next
    assume "spec_violates pd m"
    then have "recordFor rt pd m \<in> set rs"
      unfolding rs by (simp add: set_violated)
    then show "\<exists>r \<in> set rs. path r = spec_path m \<and> severity r = spec_severity m"
      by (rule bexI [rotated]) (simp add: recordFor_def)
  qed
  have bound: "\<not> spec_violates pd m" if "field m pd = Num (snd (spec_threshold m))" for m
    using that unfolding spec_violates_def by (cases m) simp_all
  have literal: "\<not> spec_violates pd m" if "field m pd = lit (snd (spec_threshold m))" for m
    using that threshold_literals unfolding spec_violates_def lit_def by (cases m) simp_all
  have latency: "\<not> (\<exists>r \<in> set rs. path r = ''Infrastruktur'')" if "systemLatency pd = Num 150"
  proof
    assume "\<exists>r \<in> set rs. path r = ''Infrastruktur''"
    then obtain m where m: "m \<in> set (violated pd)" and p: "spec_path m = ''Infrastruktur''"
      unfolding rs by (auto simp: recordFor_def)
    from p have "m = Latency"
      by (cases m) simp_all
    with m have "spec_violates pd Latency"
      by (simp add: set_violated)
    with that show False
      by (simp add: spec_violates_def)
  qed
  show ?thesis
    using iff bound literal latency by simp
qed

theorem threshold_tests_are_strict_witness:
  "orchestrateControl exampleRuntime
     \<lparr>assetVolatility = lit (20 / 100), marketLiquidity = Num 100000, systemLatency = Num 150,
      publicSentiment = lit (40 / 100), anomalyScore = lit (85 / 100), lastScan = ''''\<rparr> =
     Inr [\<lparr>path = ''Finansial'',
           description =
             ''Volatilitas aset Kritis (20.0%). Memerlukan Chronos Executor (CE) Lock.'',
           severity = ''Kritis''\<rparr>] \<and>
   \<not> (\<exists>r \<in> set [\<lparr>path = ''Finansial'',
           description =
             ''Volatilitas aset Kritis (20.0%). Memerlukan Chronos Executor (CE) Lock.'',
           severity = ''Kritis''\<rparr>]. path r = ''Infrastruktur'')"
proof -
  let ?pd = "\<lparr>assetVolatility = lit (20 / 100), marketLiquidity = Num 100000,
      systemLatency = Num 150, publicSentiment = lit (40 / 100),
      anomalyScore = lit (85 / 100), lastScan = ''''\<rparr>"
  let ?rs = "[\<lparr>path = ''Finansial'',
           description =
             ''Volatilitas aset Kritis (20.0%). Memerlukan Chronos Executor (CE) Lock.'',
           severity = ''Kritis''\<rparr>]"
  have run: "orchestrateControl exampleRuntime ?pd = Inr ?rs"
    by code_simp
  have n: "numbersOrMissing ?pd"
    by (simp add: numbersOrMissing_def lit_def)
  have "systemLatency ?pd = Num 150"
    by simp
  with threshold_tests_are_strict [OF run n]
  have "\<not> (\<exists>r \<in> set ?rs. path r = ''Infrastruktur'')"
    by (elim conjE impE)
  with run show ?thesis ..
qed

text \<open>
  C4. The records appear in the fixed evaluation order volatility (Financial), liquidity
  (Financial), latency (Infrastructure), sentiment (Persona), anomaly (Sensor): the result
  lists the records of the violated metrics in that order, and a snapshot violating all
  five thresholds yields exactly the five records in that order.
\<close>

theorem records_in_evaluation_order:
  assumes "numbersOrMissing pd"
  shows "\<exists>rs. orchestrateControl rt pd = Inr rs \<and>
     rs = map (recordFor rt pd) (filter (spec_violates pd) spec_evaluation_order) \<and>
     subseq (map (\<lambda>r. (path r, severity r)) rs)
       [(''Finansial'', ''Kritis''), (''Finansial'', ''Peringatan''),
        (''Infrastruktur'', ''Kritis''), (''Persona'', ''Peringatan''),
        (''Sensor'', ''Kritis'')] \<and>
     ((\<forall>m. spec_violates pd m) \<longrightarrow>
        map (\<lambda>r. (path r, severity r)) rs =
          [(''Finansial'', ''Kritis''), (''Finansial'', ''Peringatan''),
           (''Infrastruktur'', ''Kritis''), (''Persona'', ''Peringatan''),
           (''Sensor'', ''Kritis'')])"
proof -
  let ?key = "\<lambda>m. (spec_path m, spec_severity m)"
  let ?rs = "map (recordFor rt pd) (filter (spec_violates pd) spec_evaluation_order)"
  have keys: "map ?key spec_evaluation_order =
      [(''Finansial'', ''Kritis''), (''Finansial'', ''Peringatan''),
       (''Infrastruktur'', ''Kritis''), (''Persona'', ''Peringatan''),
       (''Sensor'', ''Kritis'')]"
    by (simp add: spec_evaluation_order_def)
  have "subseq (filter (spec_violates pd) spec_evaluation_order) spec_evaluation_order"
    by simp
  then have "subseq (map ?key (filter (spec_violates pd) spec_evaluation_order))
      (map ?key spec_evaluation_order)"
    by (rule subseq_map)
  then have sub: "subseq (map (\<lambda>r. (path r, severity r)) ?rs) (map ?key spec_evaluation_order)"
    by (simp only: keys_of_records)
  have all: "map (\<lambda>r. (path r, severity r)) ?rs = map ?key spec_evaluation_order"
    if "\<forall>m. spec_violates pd m"
    using that by (simp only: keys_of_records) simp
  have run: "orchestrateControl rt pd = Inr ?rs"
    using assms by (simp add: orchestrateControl_eq violated_def)
  show ?thesis
  proof (intro exI conjI impI)
    show "orchestrateControl rt pd = Inr ?rs"
      by (fact run)
    show "?rs = map (recordFor rt pd) (filter (spec_violates pd) spec_evaluation_order)"
      by (rule refl)
    show "subseq (map (\<lambda>r. (path r, severity r)) ?rs)
       [(''Finansial'', ''Kritis''), (''Finansial'', ''Peringatan''),
        (''Infrastruktur'', ''Kritis''), (''Persona'', ''Peringatan''),
        (''Sensor'', ''Kritis'')]"
      using sub unfolding keys .
    show "map (\<lambda>r. (path r, severity r)) ?rs =
          [(''Finansial'', ''Kritis''), (''Finansial'', ''Peringatan''),
           (''Infrastruktur'', ''Kritis''), (''Persona'', ''Peringatan''),
           (''Sensor'', ''Kritis'')]" if "\<forall>m. spec_violates pd m"
      using all [OF that] unfolding keys .
  qed
qed

theorem records_in_evaluation_order_witness:
  "\<exists>rs. orchestrateControl exampleRuntime
       \<lparr>assetVolatility = lit (20 / 100), marketLiquidity = Num 5, systemLatency = Num 500,
        publicSentiment = lit (10 / 100), anomalyScore = lit (90 / 100), lastScan = ''''\<rparr> =
       Inr rs \<and>
     map (\<lambda>r. (path r, severity r)) rs =
       [(''Finansial'', ''Kritis''), (''Finansial'', ''Peringatan''),
        (''Infrastruktur'', ''Kritis''), (''Persona'', ''Peringatan''),
        (''Sensor'', ''Kritis'')]"
proof -
  let ?pd = "\<lparr>assetVolatility = lit (20 / 100), marketLiquidity = Num 5,
      systemLatency = Num 500, publicSentiment = lit (10 / 100),
      anomalyScore = lit (90 / 100), lastScan = ''''\<rparr>"
  have n: "numbersOrMissing ?pd"
    by (simp add: numbersOrMissing_def lit_def)
  have v: "spec_violates ?pd Volatility" "spec_violates ?pd Liquidity"
    "spec_violates ?pd Latency" "spec_violates ?pd Sentiment" "spec_violates ?pd Anomaly"
    by code_simp+
  have "spec_violates ?pd m" for m
    using v by (cases m) simp_all
  then have all: "\<forall>m. spec_violates ?pd m" ..
  from records_in_evaluation_order [OF n, of exampleRuntime] obtain rs
    where "orchestrateControl exampleRuntime ?pd = Inr rs"
      and "(\<forall>m. spec_violates ?pd m) \<longrightarrow>
        map (\<lambda>r. (path r, severity r)) rs =
          [(''Finansial'', ''Kritis''), (''Finansial'', ''Peringatan''),
           (''Infrastruktur'', ''Kritis''), (''Persona'', ''Peringatan''),
           (''Sensor'', ''Kritis'')]"
    by (elim exE conjE)
  with all show ?thesis
    by (intro exI conjI) (assumption, rule mp)
qed

text \<open>
  C5. The severity of a record is a fixed function of the metric that triggered it and not
  of the value: volatility, latency and anomaly records are Critical, liquidity and
  sentiment records are Warning. Two snapshots that violate the same metrics therefore get
  the same severities, whatever their values.
\<close>

theorem severity_fixed_per_metric:
  assumes "numbersOrMissing pd" and "numbersOrMissing pd'"
  shows "\<exists>rs rs'. orchestrateControl rt pd = Inr rs \<and> orchestrateControl rt pd' = Inr rs' \<and>
     map severity rs = map spec_severity (violated pd) \<and>
     map spec_severity spec_evaluation_order =
       [''Kritis'', ''Peringatan'', ''Kritis'', ''Peringatan'', ''Kritis''] \<and>
     (violated pd = violated pd' \<longrightarrow> map severity rs = map severity rs')"
proof -
  have sev: "map severity (map (recordFor rt q) ms) = map spec_severity ms" for q ms
    by (simp add: recordFor_def)
  show ?thesis
  proof (intro exI conjI impI)
    show "orchestrateControl rt pd = Inr (map (recordFor rt pd) (violated pd))"
      using assms(1) by (rule orchestrateControl_eq)
    show "orchestrateControl rt pd' = Inr (map (recordFor rt pd') (violated pd'))"
      using assms(2) by (rule orchestrateControl_eq)
    show "map severity (map (recordFor rt pd) (violated pd)) = map spec_severity (violated pd)"
      by (rule sev)
    show "map spec_severity spec_evaluation_order =
        [''Kritis'', ''Peringatan'', ''Kritis'', ''Peringatan'', ''Kritis'']"
      by (simp add: spec_evaluation_order_def)
    show "map severity (map (recordFor rt pd) (violated pd)) =
        map severity (map (recordFor rt pd') (violated pd'))" if "violated pd = violated pd'"
      using that by (simp only: sev)
  qed
qed

theorem severity_fixed_per_metric_witness:
  "\<exists>rs rs'.
     orchestrateControl exampleRuntime
       \<lparr>assetVolatility = lit (16 / 100), marketLiquidity = Num 99999, systemLatency = Num 50,
        publicSentiment = lit (80 / 100), anomalyScore = lit (30 / 100), lastScan = ''''\<rparr> =
       Inr rs \<and>
     orchestrateControl exampleRuntime
       \<lparr>assetVolatility = lit (50 / 100), marketLiquidity = Num 0, systemLatency = Num 50,
        publicSentiment = lit (80 / 100), anomalyScore = lit (30 / 100), lastScan = ''''\<rparr> =
       Inr rs' \<and>
     map severity rs = [''Kritis'', ''Peringatan''] \<and> map severity rs = map severity rs'"
proof -
  let ?p = "\<lparr>assetVolatility = lit (16 / 100), marketLiquidity = Num 99999,
      systemLatency = Num 50, publicSentiment = lit (80 / 100),
      anomalyScore = lit (30 / 100), lastScan = ''''\<rparr>"
  let ?q = "\<lparr>assetVolatility = lit (50 / 100), marketLiquidity = Num 0,
      systemLatency = Num 50, publicSentiment = lit (80 / 100),
      anomalyScore = lit (30 / 100), lastScan = ''''\<rparr>"
  have n: "numbersOrMissing ?p" "numbersOrMissing ?q"
    by (simp_all add: numbersOrMissing_def lit_def)
  have p: "violated ?p = [Volatility, Liquidity]"
    by code_simp
  have q: "violated ?q = [Volatility, Liquidity]"
    by code_simp
  from severity_fixed_per_metric [OF n, of exampleRuntime] show ?thesis
    unfolding p q by auto
qed

text \<open>
  C7 (amended). The evaluator never fails on a snapshot whose five fields are numbers, and
  a missing field does not make it fail either: the missing field compares false against
  its bound and yields no record, while the other fields are evaluated as usual. No
  MalformedSnapshot error is signalled.
\<close>

theorem orchestrateControl_never_fails:
  assumes "numbersOrMissing pd"
  shows "\<exists>rs. orchestrateControl rt pd = Inr rs \<and>
     rs = map (recordFor rt pd) (violated pd) \<and>
     (\<forall>m. field m pd = Undefined \<longrightarrow> m \<notin> set (violated pd))"
proof (intro exI conjI allI impI)
  show "orchestrateControl rt pd = Inr (map (recordFor rt pd) (violated pd))"
    using assms by (rule orchestrateControl_eq)
  show "map (recordFor rt pd) (violated pd) = map (recordFor rt pd) (violated pd)"
    by (rule refl)
  show "m \<notin> set (violated pd)" if "field m pd = Undefined" for m
    using that violates_isNum [of pd m] by (auto simp: set_violated)
qed

theorem orchestrateControl_never_fails_witness:
  "numbersOrMissing
     \<lparr>assetVolatility = Undefined, marketLiquidity = Num 500000, systemLatency = Num 200,
      publicSentiment = lit (80 / 100), anomalyScore = Undefined, lastScan = ''''\<rparr> \<and>
   (\<exists>rs. orchestrateControl exampleRuntime
       \<lparr>assetVolatility = Undefined, marketLiquidity = Num 500000, systemLatency = Num 200,
        publicSentiment = lit (80 / 100), anomalyScore = Undefined, lastScan = ''''\<rparr> = Inr rs \<and>
     Volatility \<notin> set (violated
       \<lparr>assetVolatility = Undefined, marketLiquidity = Num 500000, systemLatency = Num 200,
        publicSentiment = lit (80 / 100), anomalyScore = Undefined, lastScan = ''''\<rparr>))"
proof -
  let ?pd = "\<lparr>assetVolatility = Undefined, marketLiquidity = Num 500000,
      systemLatency = Num 200, publicSentiment = lit (80 / 100), anomalyScore = Undefined,
      lastScan = ''''\<rparr>"
  have n: "numbersOrMissing ?pd"
    by (simp add: numbersOrMissing_def lit_def)
  from orchestrateControl_never_fails [OF n, of exampleRuntime] n show ?thesis
    by auto
qed

theorem missing_field_is_no_error:
  "orchestrateControl exampleRuntime
     \<lparr>assetVolatility = Undefined, marketLiquidity = Num 500000, systemLatency = Num 200,
      publicSentiment = lit (80 / 100), anomalyScore = Undefined, lastScan = ''''\<rparr> =
   Inr [\<lparr>path = ''Infrastruktur'',
         description =
           ''Latency sistem Kritis (200ms). Memerlukan realokasi sumber daya I/O.'',
         severity = ''Kritis''\<rparr>]"
  by code_simp

section \<open>Printed numbers\<close>









section \<open>The scan loop\<close>

lemma clamped_numeric: "clamped pd \<Longrightarrow> numeric pd"
proof -
  have n: "isNum v" if "notAbove v b" for v b
    using that by (cases v rule: isNum.cases) simp_all
  have m: "isNum v" if "notBelow v b" for v b
    using that by (cases v rule: isNum.cases) simp_all
  show "clamped pd \<Longrightarrow> numeric pd"
    unfolding clamped_def numeric_def by (auto intro: n m)
qed

lemma isNumE: "isNum v \<Longrightarrow> \<exists>x. v = Num x"
  by (cases v rule: isNum.cases) simp_all

lemma newPathData_clamped:
  assumes "numeric pd"
  shows "clamped (newPathData rt e pd)"
proof -
  from assms obtain v l t s a where
    "assetVolatility pd = Num v" "marketLiquidity pd = Num l" "systemLatency pd = Num t"
    "publicSentiment pd = Num s" "anomalyScore pd = Num a"
    unfolding numeric_def by (auto dest!: isNumE)
  then show ?thesis
    by (simp add: newPathData_def clamped_def Math_min_def Math_max_def plus_def minus_def
        times_def lit_def min_def max_def)
qed

lemma newPathData_numbers: "numbersOrMissing (newPathData rt e pd)"
  by (simp add: newPathData_def numbersOrMissing_def Math_min_def Math_max_def)

lemma runOdasScan_pathData:
  "isSimulating a \<Longrightarrow> interventionCollectionRef a \<noteq> None \<Longrightarrow>
     pathData (runOdasScan rt e a) = newPathData rt e (pathData a)"
  by (auto simp: runOdasScan_def Let_def split: sum.splits)

lemma runOdasScan_running:
  "isSimulating a \<Longrightarrow> interventionCollectionRef a \<noteq> None \<Longrightarrow>
     isSimulating (runOdasScan rt e a) \<and> interventionCollectionRef (runOdasScan rt e a) \<noteq> None"
  by (auto simp: runOdasScan_def Let_def split: sum.splits)

lemma runScans_clamped:
  "isSimulating a \<Longrightarrow> interventionCollectionRef a \<noteq> None \<Longrightarrow> clamped (pathData a) \<Longrightarrow>
     clamped (pathData (runScans rt es a))"
proof (induction es arbitrary: a)
  case Nil
  then show ?case by simp
next
  case (Cons e es)
  have "clamped (pathData (runOdasScan rt e a))"
    using Cons.prems by (simp add: runOdasScan_pathData newPathData_clamped clamped_numeric)
  with Cons.prems runOdasScan_running [of a rt e] show ?case
    by (simp add: Cons.IH)
qed

text \<open>The volatility after a scan depends on the volatility before it and on the first
  random number only.\<close>

lemma runOdasScan_volatility:
  "isSimulating a \<Longrightarrow> interventionCollectionRef a \<noteq> None \<Longrightarrow>
     assetVolatility (pathData (runOdasScan rt e a)) =
       Math_min rt (Num (5 / 10))
         (plus rt (assetVolatility (pathData a))
            (minus rt (times rt (Num (random1 e)) (lit (1 / 10))) (lit (5 / 100))))"
  by (simp add: runOdasScan_pathData newPathData_def)

text \<open>
  The rounding is observable. From a volatility of 0.125 a scan whose first random number
  is 0.75 reaches 0.15000000000000002, which is above the threshold and gives a record;
  the exact sum would be 0.15 and give none.
\<close>

lemma rounding_makes_a_record:
  "orchestrateControl exampleRuntime
     (newPathData exampleRuntime (quarterScan\<lparr>random1 := 3 / 4\<rparr>)
        (initialPathData\<lparr>assetVolatility := Num (125 / 1000)\<rparr>)) =
   Inr [\<lparr>path = ''Finansial'',
         description =
           ''Volatilitas aset Kritis (15.0%). Memerlukan Chronos Executor (CE) Lock.'',
         severity = ''Kritis''\<rparr>]"
  by code_simp

text \<open>
  C2 (amended). From a snapshot of five numbers, after any positive number of scans the
  volatility is at most 0.5, the liquidity at least 0, the latency at most 300, the
  sentiment at most 1.0 and the anomaly score at most 1.0. (The scan puts no lower bound
  on the volatility, the latency, the sentiment and the anomaly score.)
\<close>

theorem scans_keep_clamps:
  assumes "isSimulating a" and "interventionCollectionRef a \<noteq> None"
    and "numeric (pathData a)" and "es \<noteq> []"
  shows "clamped (pathData (runScans rt es a))"
proof -
  from \<open>es \<noteq> []\<close> obtain e es' where es: "es = e # es'"
    by (cases es) auto
  have "clamped (pathData (runOdasScan rt e a))"
    using assms by (simp add: runOdasScan_pathData newPathData_clamped)
  with assms runOdasScan_running [of a rt e] show ?thesis
    unfolding es by (simp add: runScans_clamped)
qed

theorem scans_keep_clamps_witness:
  "isSimulating onlineApp \<and> interventionCollectionRef onlineApp \<noteq> None \<and>
   numeric (pathData onlineApp) \<and> [quarterScan, quarterScan, quarterScan] \<noteq> [] \<and>
   clamped (pathData (runScans exampleRuntime [quarterScan, quarterScan, quarterScan] onlineApp))"
proof -
  have a: "isSimulating onlineApp" "interventionCollectionRef onlineApp \<noteq> None"
    by (simp_all add: onlineApp_def)
  have n: "numeric (pathData onlineApp)"
    by (simp add: onlineApp_def initialPathData_def numeric_def lit_def)
  have e: "[quarterScan, quarterScan, quarterScan] \<noteq> []"
    by simp
  from scans_keep_clamps [OF a n e, of exampleRuntime] a n e show ?thesis
    by simp
qed

theorem volatility_becomes_negative:
  "assetVolatility (pathData
      (runScans exampleRuntime [quarterScan, quarterScan, quarterScan] onlineApp)) =
     lit (- (25 / 1000)) \<and>
   lt exampleRuntime (lit (- (25 / 1000))) (Num 0) \<and>
   \<not> spec_in_range (pathData
      (runScans exampleRuntime [quarterScan, quarterScan, quarterScan] onlineApp))"
proof -
  define a1 where "a1 = runOdasScan exampleRuntime quarterScan onlineApp"
  define a2 where "a2 = runOdasScan exampleRuntime quarterScan a1"
  define a3 where "a3 = runOdasScan exampleRuntime quarterScan a2"
  have r0: "isSimulating onlineApp" "interventionCollectionRef onlineApp \<noteq> None"
    by (simp_all add: onlineApp_def)
  have r1: "isSimulating a1" "interventionCollectionRef a1 \<noteq> None"
    using runOdasScan_running [OF r0, of exampleRuntime quarterScan] unfolding a1_def
    by simp_all
  have r2: "isSimulating a2" "interventionCollectionRef a2 \<noteq> None"
    using runOdasScan_running [OF r1, of exampleRuntime quarterScan] unfolding a2_def
    by simp_all
  have q: "random1 quarterScan = 1 / 4"
    by (simp add: quarterScan_def)
  have s1: "Math_min exampleRuntime (Num (5 / 10))
      (plus exampleRuntime (lit (5 / 100))
         (minus exampleRuntime (times exampleRuntime (Num (1 / 4)) (lit (1 / 10)))
            (lit (5 / 100)))) = lit (25 / 1000)"
    by code_simp
  have s2: "Math_min exampleRuntime (Num (5 / 10))
      (plus exampleRuntime (lit (25 / 1000))
         (minus exampleRuntime (times exampleRuntime (Num (1 / 4)) (lit (1 / 10)))
            (lit (5 / 100)))) = Num 0"
    by code_simp
  have s3: "Math_min exampleRuntime (Num (5 / 10))
      (plus exampleRuntime (Num 0)
         (minus exampleRuntime (times exampleRuntime (Num (1 / 4)) (lit (1 / 10)))
            (lit (5 / 100)))) = lit (- (25 / 1000))"
    by code_simp
  have v0: "assetVolatility (pathData onlineApp) = lit (5 / 100)"
    by (simp add: onlineApp_def initialPathData_def)
  have v1: "assetVolatility (pathData a1) = lit (25 / 1000)"
    using runOdasScan_volatility [OF r0, of exampleRuntime quarterScan]
    unfolding a1_def v0 q s1 .
  have v2: "assetVolatility (pathData a2) = Num 0"
    using runOdasScan_volatility [OF r1, of exampleRuntime quarterScan]
    unfolding a2_def [symmetric] v1 q s2 .
  have v3: "assetVolatility (pathData a3) = lit (- (25 / 1000))"
    using runOdasScan_volatility [OF r2, of exampleRuntime quarterScan]
    unfolding a3_def [symmetric] v2 q s3 .
  have run: "runScans exampleRuntime [quarterScan, quarterScan, quarterScan] onlineApp = a3"
    by (simp add: a1_def a2_def a3_def)
  have neg: "lt exampleRuntime (lit (- (25 / 1000))) (Num 0)"
    by code_simp
  have low: "\<not> notBelow (lit (- (25 / 1000))) 0"
    by code_simp
  then have "\<not> spec_in_range (pathData a3)"
    by (simp add: spec_in_range_def v3)
  with v3 neg show ?thesis
    unfolding run by simp
qed

text \<open>
  C9. On a tick of the running loop the status is set from that tick's evaluator output
  alone: with \<open>N \<ge> 1\<close> records it is the label carrying the count \<open>N\<close>
  (\<open>Intervensi N Kritis\<close>), with no record it is the label of normal operation.
\<close>

theorem status_from_this_tick:
  assumes "isSimulating a" and "interventionCollectionRef a \<noteq> None"
  shows "\<exists>rs. orchestrateControl rt (newPathData rt e (pathData a)) = Inr rs \<and>
     odasStatus (runOdasScan rt e a) =
       (if 1 \<le> length rs then ''Intervensi '' @ digits (int (length rs)) @ '' Kritis''
        else ''ODAS Operasional Normal'')"
proof -
  obtain rs where rs: "orchestrateControl rt (newPathData rt e (pathData a)) = Inr rs"
    by (simp add: orchestrateControl_eq newPathData_numbers)
  with assms have "odasStatus (runOdasScan rt e a) =
       (if 1 \<le> length rs then ''Intervensi '' @ digits (int (length rs)) @ '' Kritis''
        else ''ODAS Operasional Normal'')"
    by (cases rs) (auto simp: runOdasScan_def Let_def)
  with rs show ?thesis
    by blast
qed

theorem status_from_this_tick_witness:
  "odasStatus (runOdasScan exampleRuntime quarterScan
      (onlineApp\<lparr>pathData := initialPathData
         \<lparr>assetVolatility := lit (30 / 100), systemLatency := Num 400\<rparr>\<rparr>)) =
     ''Intervensi 2 Kritis'' \<and>
   odasStatus (runOdasScan exampleRuntime quarterScan onlineApp) = ''ODAS Operasional Normal''"
proof -
  let ?a = "onlineApp\<lparr>pathData := initialPathData
         \<lparr>assetVolatility := lit (30 / 100), systemLatency := Num 400\<rparr>\<rparr>"
  have a: "isSimulating ?a" "interventionCollectionRef ?a \<noteq> None"
    by (simp_all add: onlineApp_def)
  have b: "isSimulating onlineApp" "interventionCollectionRef onlineApp \<noteq> None"
    by (simp_all add: onlineApp_def)
  have two: "orchestrateControl exampleRuntime
      (newPathData exampleRuntime quarterScan (pathData ?a)) =
      Inr [\<lparr>path = ''Finansial'',
             description =
               ''Volatilitas aset Kritis (27.5%). Memerlukan Chronos Executor (CE) Lock.'',
             severity = ''Kritis''\<rparr>,
           \<lparr>path = ''Infrastruktur'',
             description =
               ''Latency sistem Kritis (300ms). Memerlukan realokasi sumber daya I/O.'',
             severity = ''Kritis''\<rparr>]"
    by code_simp
  have none: "orchestrateControl exampleRuntime
      (newPathData exampleRuntime quarterScan (pathData onlineApp)) = Inr []"
    by code_simp
  have d: "digits 2 = ''2''"
    by code_simp
  have "odasStatus (runOdasScan exampleRuntime quarterScan ?a) = ''Intervensi 2 Kritis''"
    using status_from_this_tick [OF a, of exampleRuntime quarterScan] unfolding two
    by (simp add: d)
  moreover have "odasStatus (runOdasScan exampleRuntime quarterScan onlineApp) =
      ''ODAS Operasional Normal''"
    using status_from_this_tick [OF b, of exampleRuntime quarterScan] unfolding none
    by simp
  ultimately show ?thesis ..
qed

section \<open>The health label\<close>

lemma systemHealth_onSnapshot:
  "systemHealth (strategicMetrics (onSnapshot fetched s)) =
     (let c = length (filter (\<lambda>i. severity i = ''Kritis'') fetched)
      in if 5 < c then ''Kritis (High Alert)'' else if 0 < c then ''Peringatan''
         else ''Optimal'')"
  by (simp add: onSnapshot_def Let_def)

text \<open>
  C8. The health label is a function of the number of Critical records in the fetched log:
  more than 5 gives \<open>Kritis (High Alert)\<close>, 1 to 5 give \<open>Peringatan\<close> (Warning), none
  gives \<open>Optimal\<close>; in particular 6 gives the high alert and 3 the warning.
\<close>

theorem health_from_critical_count:
  "(let c = length (filter (\<lambda>i. severity i = ''Kritis'') fetched);
        h = systemHealth (strategicMetrics (onSnapshot fetched s))
    in (5 < c \<longrightarrow> h = ''Kritis (High Alert)'') \<and>
       (1 \<le> c \<and> c \<le> 5 \<longrightarrow> h = ''Peringatan'') \<and>
       (c = 0 \<longrightarrow> h = ''Optimal'') \<and>
       (c = 6 \<longrightarrow> h = ''Kritis (High Alert)'') \<and>
       (c = 3 \<longrightarrow> h = ''Peringatan''))"
  by (simp add: systemHealth_onSnapshot Let_def)

theorem health_from_critical_count_witness:
  "systemHealth (strategicMetrics (onSnapshot
      [criticalDoc, warningDoc, criticalDoc, criticalDoc, criticalDoc, criticalDoc,
       warningDoc, criticalDoc] offlineGcp)) = ''Kritis (High Alert)'' \<and>
   systemHealth (strategicMetrics (onSnapshot
      [criticalDoc, warningDoc, criticalDoc, criticalDoc] offlineGcp)) = ''Peringatan'' \<and>
   systemHealth (strategicMetrics (onSnapshot [warningDoc] offlineGcp)) = ''Optimal''"
proof -
  let ?six = "[criticalDoc, warningDoc, criticalDoc, criticalDoc, criticalDoc, criticalDoc,
       warningDoc, criticalDoc]"
  let ?three = "[criticalDoc, warningDoc, criticalDoc, criticalDoc]"
  have six: "length (filter (\<lambda>i. severity i = ''Kritis'') ?six) = 6"
    by (simp add: criticalDoc_def warningDoc_def)
  have three: "length (filter (\<lambda>i. severity i = ''Kritis'') ?three) = 3"
    by (simp add: criticalDoc_def warningDoc_def)
  have zero: "length (filter (\<lambda>i. severity i = ''Kritis'') [warningDoc]) = 0"
    by (simp add: warningDoc_def)
  have "systemHealth (strategicMetrics (onSnapshot ?six offlineGcp)) = ''Kritis (High Alert)''"
    using health_from_critical_count [of ?six offlineGcp] unfolding six Let_def by simp
  moreover have "systemHealth (strategicMetrics (onSnapshot ?three offlineGcp)) = ''Peringatan''"
    using health_from_critical_count [of ?three offlineGcp] unfolding three Let_def by simp
  moreover have "systemHealth (strategicMetrics (onSnapshot [warningDoc] offlineGcp)) = ''Optimal''"
    using health_from_critical_count [of "[warningDoc]" offlineGcp] unfolding zero Let_def by simp
  ultimately show ?thesis
    by (intro conjI)
qed

text \<open>
  C10. Warning records do not influence the health label: a log without Critical records
  gives \<open>Optimal\<close> however many Warning records it holds, and removing the Warning
  records from any log leaves the label unchanged.
\<close>

theorem warnings_do_not_count:
  "((\<forall>i \<in> set fetched. severity i \<noteq> ''Kritis'') \<longrightarrow>
      systemHealth (strategicMetrics (onSnapshot fetched s)) = ''Optimal'') \<and>
   systemHealth (strategicMetrics (onSnapshot fetched s)) =
     systemHealth (strategicMetrics
       (onSnapshot (filter (\<lambda>i. severity i \<noteq> ''Peringatan'') fetched) s))"
proof
  show "(\<forall>i \<in> set fetched. severity i \<noteq> ''Kritis'') \<longrightarrow>
      systemHealth (strategicMetrics (onSnapshot fetched s)) = ''Optimal''"
  proof
    assume "\<forall>i \<in> set fetched. severity i \<noteq> ''Kritis''"
    then have "filter (\<lambda>i. severity i = ''Kritis'') fetched = []"
      by (simp add: filter_empty_conv)
    then show "systemHealth (strategicMetrics (onSnapshot fetched s)) = ''Optimal''"
      by (simp add: systemHealth_onSnapshot)
  qed
next
  have "filter (\<lambda>i. severity i = ''Kritis'') (filter (\<lambda>i. severity i \<noteq> ''Peringatan'') fetched) =
      filter (\<lambda>i. severity i = ''Kritis'') fetched"
    by (induction fetched) auto
  then show "systemHealth (strategicMetrics (onSnapshot fetched s)) =
     systemHealth (strategicMetrics
       (onSnapshot (filter (\<lambda>i. severity i \<noteq> ''Peringatan'') fetched) s))"
    by (simp add: systemHealth_onSnapshot)
qed

theorem warnings_do_not_count_witness:
  "systemHealth (strategicMetrics (onSnapshot
      [warningDoc, warningDoc, warningDoc, warningDoc, warningDoc, warningDoc, warningDoc]
      offlineGcp)) = ''Optimal''"
proof -
  let ?log = "[warningDoc, warningDoc, warningDoc, warningDoc, warningDoc, warningDoc,
      warningDoc]"
  have "\<forall>i \<in> set ?log. severity i \<noteq> ''Kritis''"
    by (simp add: warningDoc_def)
  with warnings_do_not_count [of ?log offlineGcp] show ?thesis
    by (elim conjE impE)
qed

end
